theory Spec2Isabelle
  imports Main "HOL-Library.Product_Lexorder"
begin

section \<open>Text, exceptions and object identity\<close>

text \<open>
  The address book of \<^verbatim>\<open>personal_assistant.py\<close>: the validated fields, the contact
  record, the book and its upcoming-birthdays query.

  Python text is modelled by \<^typ>\<open>string\<close>: every \<^typ>\<open>char\<close> stands for the code point of
  the same number, so the model covers the texts whose code points lie in U+0000..U+00FF,
  and \<^const>\<open>length\<close> counts code points as \<^verbatim>\<open>len\<close> does.

  A raised exception is a value \<open>Inl e\<close> of the result. The constructor of \<open>error\<close> is the
  exception class; its argument names the place that raises (the message, without the
  data that the library formats into it).
\<close>

datatype error = ValueError string | AttributeError string | OverflowError string

definition ascii_digit :: "char \<Rightarrow> bool" where
  "ascii_digit c = (48 \<le> (of_char c :: nat) \<and> (of_char c :: nat) \<le> 57)"

definition superscript_digit :: "char \<Rightarrow> bool" where
  \<comment> \<open>U+00B2, U+00B3 and U+00B9: the superscripts two, three and one\<close>
  "superscript_digit c = ((of_char c :: nat) = 178 \<or> (of_char c :: nat) = 179 \<or> (of_char c :: nat) = 185)"

definition char_isdigit :: "char \<Rightarrow> bool" where
  \<comment> \<open>the code points below U+0100 whose Unicode numeric type is Decimal or Digit\<close>
  "char_isdigit c =
     ((48 \<le> (of_char c :: nat) \<and> (of_char c :: nat) \<le> 57)
      \<or> (of_char c :: nat) = 178 \<or> (of_char c :: nat) = 179 \<or> (of_char c :: nat) = 185)"

definition isdigit :: "string \<Rightarrow> bool" where
  \<comment> \<open>\<^verbatim>\<open>str.isdigit\<close>: at least one character, and all of them digits\<close>
  "isdigit s = (s \<noteq> [] \<and> list_all char_isdigit s)"

definition digit_val :: "char \<Rightarrow> nat" where
  "digit_val c = of_char c - 48"

section \<open>Calendar dates\<close>

record date_obj =
  year :: nat
  month :: nat
  day :: nat

record datetime_obj = date_obj +
  hour :: nat
  minute :: nat
  second :: nat
  microsecond :: nat

definition is_leap :: "nat \<Rightarrow> bool" where
  "is_leap y = (y mod 4 = 0 \<and> (y mod 100 \<noteq> 0 \<or> y mod 400 = 0))"

definition days_in_month :: "nat \<Rightarrow> nat \<Rightarrow> nat" where
  "days_in_month y m =
     (if m = 2 then (if is_leap y then 29 else 28)
      else if m = 4 \<or> m = 6 \<or> m = 9 \<or> m = 11 then 30 else 31)"

definition check_date_fields :: "nat \<Rightarrow> nat \<Rightarrow> nat \<Rightarrow> error + unit" where
  \<comment> \<open>the range checks of the \<^verbatim>\<open>date\<close> and \<^verbatim>\<open>datetime\<close> constructors\<close>
  "check_date_fields y m d =
     (if \<not> (1 \<le> y \<and> y \<le> 9999) then Inl (ValueError ''year is out of range'')
      else if \<not> (1 \<le> m \<and> m \<le> 12) then Inl (ValueError ''month must be in 1..12'')
      else if \<not> (1 \<le> d \<and> d \<le> days_in_month y m)
        then Inl (ValueError ''day is out of range for month'')
      else Inr ())"

definition new_date :: "nat \<Rightarrow> nat \<Rightarrow> nat \<Rightarrow> error + date_obj" where
  "new_date y m d =
     (case check_date_fields y m d of
        Inl e \<Rightarrow> Inl e
      | Inr _ \<Rightarrow> Inr \<lparr>year = y, month = m, day = d\<rparr>)"

definition combine_min_time :: "date_obj \<Rightarrow> datetime_obj" where
  \<comment> \<open>\<^verbatim>\<open>datetime.combine(d, datetime.min.time())\<close>: midnight of the day \<open>d\<close>\<close>
  "combine_min_time d =
     \<lparr>year = year d, month = month d, day = day d,
      hour = 0, minute = 0, second = 0, microsecond = 0\<rparr>"

definition replace_year :: "datetime_obj \<Rightarrow> nat \<Rightarrow> error + datetime_obj" where
  \<comment> \<open>\<^verbatim>\<open>dt.replace(year=y)\<close> builds a new datetime, with the constructor's checks\<close>
  "replace_year dt y =
     (case check_date_fields y (month dt) (day dt) of
        Inl e \<Rightarrow> Inl e
      | Inr _ \<Rightarrow> Inr (dt\<lparr>year := y\<rparr>))"

definition dt_key :: "datetime_obj \<Rightarrow> nat \<times> nat \<times> nat \<times> nat \<times> nat \<times> nat \<times> nat" where
  "dt_key dt = (year dt, month dt, day dt, hour dt, minute dt, second dt, microsecond dt)"

definition dt_le :: "datetime_obj \<Rightarrow> datetime_obj \<Rightarrow> bool" where
  \<comment> \<open>\<^verbatim>\<open>a <= b\<close> on naive datetimes: the fields compared in order\<close>
  "dt_le a b = (dt_key a \<le> dt_key b)"

definition dt_lt :: "datetime_obj \<Rightarrow> datetime_obj \<Rightarrow> bool" where
  "dt_lt a b = (dt_key a < dt_key b)"

definition next_day :: "datetime_obj \<Rightarrow> datetime_obj" where
  \<comment> \<open>the same time on the following day of the proleptic Gregorian calendar\<close>
  "next_day dt =
     (if day dt < days_in_month (year dt) (month dt) then dt\<lparr>day := day dt + 1\<rparr>
      else if month dt < 12 then dt\<lparr>month := month dt + 1, day := 1\<rparr>
      else dt\<lparr>year := year dt + 1, month := 1, day := 1\<rparr>)"

fun days_later :: "nat \<Rightarrow> datetime_obj \<Rightarrow> datetime_obj" where
  "days_later 0 dt = dt"
| "days_later (Suc n) dt = next_day (days_later n dt)"

definition add_days :: "datetime_obj \<Rightarrow> nat \<Rightarrow> error + datetime_obj" where
  \<comment> \<open>\<^verbatim>\<open>dt + timedelta(days=n)\<close>; a result after 9999-12-31 raises OverflowError\<close>
  "add_days dt n =
     (let r = days_later n dt
      in if year r > 9999 then Inl (OverflowError ''date value out of range'') else Inr r)"

section \<open>Parsing a date: \<^verbatim>\<open>datetime.strptime(value, "%d.%m.%Y").date()\<close>\<close>

text \<open>
  The library compiles the format to the regular expression
  \<^verbatim>\<open>(?P<d>3[0-1]|[1-2]\d|0[1-9]|[1-9]| [1-9])\.(?P<m>1[0-2]|0[1-9]|[1-9])\.(?P<Y>\d\d\d\d)\<close>,
  matches it at the start of the text, raises ValueError when there is no match or when
  text remains after the match, and builds the date from the three groups read as
  integers. A group is modelled by the list of its ways to match a prefix of the text, in
  the order in which the alternatives are tried; each way gives the group's number and the
  rest of the text.
\<close>

definition in_range :: "char \<Rightarrow> char \<Rightarrow> char \<Rightarrow> bool" where
  "in_range lo hi c = ((of_char lo :: nat) \<le> of_char c \<and> (of_char c :: nat) \<le> of_char hi)"

definition two_chars :: "(char \<Rightarrow> bool) \<Rightarrow> (char \<Rightarrow> bool) \<Rightarrow> string \<Rightarrow> (nat \<times> string) list" where
  "two_chars p q s =
     (case s of
        a # b # rest \<Rightarrow> (if p a \<and> q b then [(10 * digit_val a + digit_val b, rest)] else [])
      | _ \<Rightarrow> [])"

definition one_char :: "(char \<Rightarrow> bool) \<Rightarrow> string \<Rightarrow> (nat \<times> string) list" where
  "one_char p s = (case s of a # rest \<Rightarrow> (if p a then [(digit_val a, rest)] else []) | [] \<Rightarrow> [])"

definition space_char :: "(char \<Rightarrow> bool) \<Rightarrow> string \<Rightarrow> (nat \<times> string) list" where
  \<comment> \<open>a space and a digit: \<^verbatim>\<open>int(' 5')\<close> is 5\<close>
  "space_char q s =
     (case s of
        a # b # rest \<Rightarrow> (if a = CHR '' '' \<and> q b then [(digit_val b, rest)] else [])
      | _ \<Rightarrow> [])"

definition match_d :: "string \<Rightarrow> (nat \<times> string) list" where
  "match_d s =
     two_chars (\<lambda>c. c = CHR ''3'') (in_range CHR ''0'' CHR ''1'') s
     @ two_chars (in_range CHR ''1'' CHR ''2'') ascii_digit s
     @ two_chars (\<lambda>c. c = CHR ''0'') (in_range CHR ''1'' CHR ''9'') s
     @ one_char (in_range CHR ''1'' CHR ''9'') s
     @ space_char (in_range CHR ''1'' CHR ''9'') s"

definition match_m :: "string \<Rightarrow> (nat \<times> string) list" where
  "match_m s =
     two_chars (\<lambda>c. c = CHR ''1'') (in_range CHR ''0'' CHR ''2'') s
     @ two_chars (\<lambda>c. c = CHR ''0'') (in_range CHR ''1'' CHR ''9'') s
     @ one_char (in_range CHR ''1'' CHR ''9'') s"

definition match_Y :: "string \<Rightarrow> (nat \<times> string) list" where
  "match_Y s =
     (case s of
        a # b # c # d # rest \<Rightarrow>
          (if ascii_digit a \<and> ascii_digit b \<and> ascii_digit c \<and> ascii_digit d
           then [(1000 * digit_val a + 100 * digit_val b + 10 * digit_val c + digit_val d, rest)]
           else [])
      | _ \<Rightarrow> [])"

definition match_dot :: "string \<Rightarrow> string list" where
  "match_dot s = (case s of a # rest \<Rightarrow> (if a = CHR ''.'' then [rest] else []) | [] \<Rightarrow> [])"

definition format_regex_match :: "string \<Rightarrow> ((nat \<times> nat \<times> nat) \<times> string) list" where
  \<comment> \<open>all matches of the whole expression, in backtracking order: the head is the one found\<close>
  "format_regex_match s =
     [((d, m, y), r5).
        (d, r1) \<leftarrow> match_d s, r2 \<leftarrow> match_dot r1,
        (m, r3) \<leftarrow> match_m r2, r4 \<leftarrow> match_dot r3,
        (y, r5) \<leftarrow> match_Y r4]"

definition strptime_date :: "string \<Rightarrow> error + date_obj" where
  "strptime_date s =
     (case format_regex_match s of
        [] \<Rightarrow> Inl (ValueError ''time data does not match format'')
      | ((d, m, y), rest) # _ \<Rightarrow>
          if rest \<noteq> [] then Inl (ValueError ''unconverted data remains'')
          else new_date y m d)"

section \<open>Validated fields\<close>

text \<open>
  \<^verbatim>\<open>Field.__init__\<close> stores \<^verbatim>\<open>value\<close>; \<^verbatim>\<open>Field.__str__\<close> returns \<^verbatim>\<open>str(self.value)\<close>.
  An attribute that an object may lack is an \<open>option\<close>: reading it when it is \<open>None\<close>
  raises AttributeError.
\<close>

record name_obj =
  name_value :: string

definition Name :: "string \<Rightarrow> error + name_obj" where
  "Name v = (if v = [] then Inl (ValueError ''Name cannot be empty'') else Inr \<lparr>name_value = v\<rparr>)"

text \<open>
  A \<^verbatim>\<open>Phone\<close> object has an identity and the private attribute behind the property
  \<^verbatim>\<open>value\<close>. The class defines no \<^verbatim>\<open>__eq__\<close>, so \<^verbatim>\<open>==\<close> between two phones is the
  comparison of \<^verbatim>\<open>object\<close>: identity. The identity is a number; the constructor is given the
  number of the object it creates, which no object that exists already has.
\<close>

record phone_obj =
  ident :: nat
  phone_value :: string

definition phone_value_setter :: "string \<Rightarrow> error + string" where
  \<comment> \<open>the setter of the property: the new private value, or the exception\<close>
  "phone_value_setter v =
     (if length v = 10 \<and> isdigit v then Inr v else Inl (ValueError ''Invalid phone number''))"

definition Phone :: "nat \<Rightarrow> string \<Rightarrow> error + phone_obj" where
  \<comment> \<open>\<^verbatim>\<open>super().__init__(value)\<close> assigns through the setter; then the private value is
     reset and assigned through the setter again\<close>
  "Phone new v =
     (case phone_value_setter v of
        Inl e \<Rightarrow> Inl e
      | Inr _ \<Rightarrow>
          (case phone_value_setter v of
             Inl e \<Rightarrow> Inl e
           | Inr v2 \<Rightarrow> Inr \<lparr>ident = new, phone_value = v2\<rparr>))"

definition phone_eq :: "phone_obj \<Rightarrow> phone_obj \<Rightarrow> bool" where
  "phone_eq a b = (ident a = ident b)"

definition phone_str :: "phone_obj \<Rightarrow> string" where
  "phone_str p = phone_value p"

record birthday_obj =
  date :: "date_obj option"
  birthday_value :: "string option"

definition Birthday :: "string \<Rightarrow> error + birthday_obj" where
  \<comment> \<open>\<^verbatim>\<open>except ValueError: pass\<close>: the object is returned with no attribute set\<close>
  "Birthday v =
     (case strptime_date v of
        Inr d \<Rightarrow> Inr \<lparr>date = Some d, birthday_value = Some v\<rparr>
      | Inl (ValueError _) \<Rightarrow> Inr \<lparr>date = None, birthday_value = None\<rparr>
      | Inl e \<Rightarrow> Inl e)"

definition birthday_str :: "birthday_obj \<Rightarrow> error + string" where
  "birthday_str b =
     (case birthday_value b of
        None \<Rightarrow> Inl (AttributeError ''value'')
      | Some v \<Rightarrow> Inr v)"

section \<open>Record\<close>

record record_obj =
  name :: name_obj
  phones :: "phone_obj list"
  birthday :: "birthday_obj option"

definition Record :: "string \<Rightarrow> error + record_obj" where
  "Record n =
     (case Name n of
        Inl e \<Rightarrow> Inl e
      | Inr nm \<Rightarrow> Inr \<lparr>name = nm, phones = [], birthday = None\<rparr>)"

definition add_phone :: "nat \<Rightarrow> string \<Rightarrow> record_obj \<Rightarrow> error + record_obj" where
  "add_phone new phone r =
     (case Phone new phone of
        Inl e \<Rightarrow> Inl e
      | Inr p \<Rightarrow> Inr (r\<lparr>phones := phones r @ [p]\<rparr>))"

fun list_remove :: "phone_obj \<Rightarrow> phone_obj list \<Rightarrow> error + phone_obj list" where
  "list_remove x [] = Inl (ValueError ''list.remove(x): x not in list'')"
| "list_remove x (y # ys) =
     (if phone_eq y x then Inr ys
      else (case list_remove x ys of Inl e \<Rightarrow> Inl e | Inr zs \<Rightarrow> Inr (y # zs)))"

definition delete_phone :: "nat \<Rightarrow> string \<Rightarrow> record_obj \<Rightarrow> error + record_obj" where
  \<comment> \<open>\<^verbatim>\<open>self.phones.remove(Phone(phone))\<close>\<close>
  "delete_phone new phone r =
     (case Phone new phone of
        Inl e \<Rightarrow> Inl e
      | Inr p \<Rightarrow>
          (case list_remove p (phones r) of
             Inl e \<Rightarrow> Inl e
           | Inr ps \<Rightarrow> Inr (r\<lparr>phones := ps\<rparr>)))"

fun edit_phone_loop ::
  "nat \<Rightarrow> string \<Rightarrow> string \<Rightarrow> nat list \<Rightarrow> phone_obj list \<Rightarrow> error + phone_obj list" where
  "edit_phone_loop new old_phone new_phone [] ps = Inr ps"
| "edit_phone_loop new old_phone new_phone (index # rest) ps =
     (if phone_value (ps ! index) = old_phone
      then (case Phone new new_phone of
              Inl e \<Rightarrow> Inl e
            | Inr p \<Rightarrow> Inr (ps[index := p]))
      else Inr ps)"

text \<open>
  The \<^verbatim>\<open>break\<close> stands in the loop body after the \<^verbatim>\<open>if\<close>, not inside it: the loop ends
  after its first iteration, and \<open>rest\<close> is never visited.
\<close>

definition edit_phone :: "nat \<Rightarrow> string \<Rightarrow> string \<Rightarrow> record_obj \<Rightarrow> error + record_obj" where
  "edit_phone new old_phone new_phone r =
     (case edit_phone_loop new old_phone new_phone [0 ..< length (phones r)] (phones r) of
        Inl e \<Rightarrow> Inl e
      | Inr ps \<Rightarrow> Inr (r\<lparr>phones := ps\<rparr>))"

fun find_phone_loop :: "string \<Rightarrow> phone_obj list \<Rightarrow> string option" where
  "find_phone_loop phone [] = None"
| "find_phone_loop phone (p # ps) =
     (if phone_value p = phone then Some (phone_value p) else find_phone_loop phone ps)"

definition find_phone :: "string \<Rightarrow> record_obj \<Rightarrow> string option" where
  "find_phone phone r = find_phone_loop phone (phones r)"

definition add_birthday :: "string \<Rightarrow> record_obj \<Rightarrow> error + record_obj" where
  "add_birthday v r =
     (case Birthday v of
        Inl e \<Rightarrow> Inl e
      | Inr b \<Rightarrow> Inr (r\<lparr>birthday := Some b\<rparr>))"

section \<open>AddressBook\<close>

text \<open>
  The book's \<^verbatim>\<open>data\<close> is a dict: an association list with distinct keys in insertion
  order. Assigning to a key that is present replaces its value in place; a new key goes
  to the end.
\<close>

type_synonym address_book = "(string \<times> record_obj) list"

fun dict_setitem :: "string \<Rightarrow> record_obj \<Rightarrow> address_book \<Rightarrow> address_book" where
  "dict_setitem k v [] = [(k, v)]"
| "dict_setitem k v ((k', v') # kvs) =
     (if k' = k then (k, v) # kvs else (k', v') # dict_setitem k v kvs)"

fun dict_delitem :: "string \<Rightarrow> address_book \<Rightarrow> address_book" where
  "dict_delitem k [] = []"
| "dict_delitem k ((k', v') # kvs) = (if k' = k then kvs else (k', v') # dict_delitem k kvs)"

definition dict_contains :: "string \<Rightarrow> address_book \<Rightarrow> bool" where
  "dict_contains k d = (k \<in> set (map fst d))"

definition dict_values :: "address_book \<Rightarrow> record_obj list" where
  "dict_values d = map snd d"

definition add_record :: "record_obj \<Rightarrow> address_book \<Rightarrow> address_book" where
  "add_record r book = dict_setitem (name_value (name r)) r book"

definition delete :: "string \<Rightarrow> address_book \<Rightarrow> address_book" where
  "delete n book = (if dict_contains n book then dict_delitem n book else book)"

definition find :: "string \<Rightarrow> address_book \<Rightarrow> record_obj option" where
  "find n book = (if dict_contains n book then map_of book n else None)"

fun upcoming_loop ::
  "datetime_obj \<Rightarrow> datetime_obj \<Rightarrow> record_obj list \<Rightarrow> record_obj list \<Rightarrow> error + record_obj list"
  where
  "upcoming_loop today next_week [] upcoming_birthdays = Inr upcoming_birthdays"
| "upcoming_loop today next_week (contact # rest) upcoming_birthdays =
     (case birthday contact of
        None \<Rightarrow> upcoming_loop today next_week rest upcoming_birthdays
      | Some b \<Rightarrow>
          (case date b of
             None \<Rightarrow> Inl (AttributeError ''date'')
           | Some _ \<Rightarrow>
               (case birthday_value b of
                  None \<Rightarrow> Inl (AttributeError ''value'')
                | Some v \<Rightarrow>
                    (case strptime_date v of
                       Inl e \<Rightarrow> Inl e
                     | Inr d \<Rightarrow>
                         (case replace_year (combine_min_time d) (year today) of
                            Inl e \<Rightarrow> Inl e
                          | Inr contact_birthday \<Rightarrow>
                              if dt_le today contact_birthday \<and> dt_le contact_birthday next_week
                              then upcoming_loop today next_week rest
                                     (upcoming_birthdays @ [contact])
                              else if dt_lt next_week today
                                      \<and> year contact_birthday = year today + 1
                              then upcoming_loop today next_week rest
                                     (upcoming_birthdays @ [contact])
                              else upcoming_loop today next_week rest upcoming_birthdays)))))"

text \<open>
  \<^verbatim>\<open>contact.birthday and contact.birthday.date\<close>: \<^verbatim>\<open>None\<close> is false and skips the
  contact; a Birthday object is true, so its \<^verbatim>\<open>date\<close> is read next, which raises when the
  attribute is missing; a date is always true. The clock is an input: \<open>today\<close> is what
  \<^verbatim>\<open>datetime.now()\<close> returns.
\<close>

definition get_upcoming_birthdays :: "datetime_obj \<Rightarrow> address_book \<Rightarrow> error + record_obj list" where
  "get_upcoming_birthdays today book =
     (case add_days today 7 of
        Inl e \<Rightarrow> Inl e
      | Inr next_week \<Rightarrow> upcoming_loop today next_week (dict_values book) [])"

section \<open>Sequences of operations on a book\<close>

datatype book_op =
  AddRecord record_obj
| Delete string
| Find string
| GetUpcomingBirthdays datetime_obj

fun apply_op :: "address_book \<Rightarrow> book_op \<Rightarrow> address_book" where
  \<comment> \<open>the book after the operation; the two queries hand their result (or their
     exception) to the caller and leave the book as it is\<close>
  "apply_op book (AddRecord r) = add_record r book"
| "apply_op book (Delete n) = delete n book"
| "apply_op book (Find n) = snd (find n book, book)"
| "apply_op book (GetUpcomingBirthdays today) = snd (get_upcoming_birthdays today book, book)"

definition run :: "book_op list \<Rightarrow> address_book" where
  \<comment> \<open>the book reached from the empty book\<close>
  "run ops = foldl apply_op [] ops"

section \<open>Notions of the specification\<close>

definition valid_datetime :: "datetime_obj \<Rightarrow> bool" where
  \<comment> \<open>the ranges that every datetime object keeps\<close>
  "valid_datetime dt =
     (check_date_fields (year dt) (month dt) (day dt) = Inr ()
      \<and> hour dt < 24 \<and> minute dt < 60 \<and> second dt < 60 \<and> microsecond dt < 1000000)"

definition candidate :: "datetime_obj \<Rightarrow> date_obj \<Rightarrow> datetime_obj" where
  \<comment> \<open>this year's occurrence: midnight of the birthday's day and month in the year of \<open>today\<close>\<close>
  "candidate today d =
     \<lparr>year = year today, month = month d, day = day d,
      hour = 0, minute = 0, second = 0, microsecond = 0\<rparr>"

definition in_window :: "datetime_obj \<Rightarrow> datetime_obj \<Rightarrow> record_obj \<Rightarrow> bool" where
  \<comment> \<open>the record holds a birthday with a date, and \<open>today \<le> candidate \<le> next_week\<close>\<close>
  "in_window today next_week r =
     (case birthday r of
        None \<Rightarrow> False
      | Some b \<Rightarrow>
          (case date b of
             None \<Rightarrow> False
           | Some d \<Rightarrow> dt_le today (candidate today d) \<and> dt_le (candidate today d) next_week))"

definition parsed_birthday :: "birthday_obj \<Rightarrow> bool" where
  \<comment> \<open>the object is what \<open>Birthday\<close> returns for a text that parses\<close>
  "parsed_birthday b =
     (case birthday_value b of
        None \<Rightarrow> False
      | Some v \<Rightarrow> date b \<noteq> None \<and> Birthday v = Inr b)"

definition day_exists :: "nat \<Rightarrow> birthday_obj \<Rightarrow> bool" where
  \<comment> \<open>the birthday's day and month exist in the year \<open>y\<close>: 29 February needs a leap year\<close>
  "day_exists y b =
     (case date b of
        None \<Rightarrow> False
      | Some d \<Rightarrow> day d \<le> days_in_month y (month d))"

definition steps_over :: "nat \<Rightarrow> record_obj \<Rightarrow> bool" where
  \<comment> \<open>a record on which the loop of the query raises nothing in the year \<open>y\<close>\<close>
  "steps_over y r =
     (case birthday r of
        None \<Rightarrow> True
      | Some b \<Rightarrow> parsed_birthday b \<and> day_exists y b)"

definition date_key :: "'a date_obj_scheme \<Rightarrow> nat \<times> nat \<times> nat" where
  \<comment> \<open>the calendar day of a date or of a datetime, for comparing days\<close>
  "date_key d = (year d, month d, day d)"

section \<open>Example data\<close>

definition noon_2024_08_20 :: datetime_obj where
  "noon_2024_08_20 =
     \<lparr>year = 2024, month = 8, day = 20, hour = 12, minute = 0, second = 0, microsecond = 0\<rparr>"

definition noon_2023_03_01 :: datetime_obj where
  "noon_2023_03_01 =
     \<lparr>year = 2023, month = 3, day = 1, hour = 12, minute = 0, second = 0, microsecond = 0\<rparr>"

definition with_birthday :: "string \<Rightarrow> birthday_obj \<Rightarrow> record_obj" where
  "with_birthday n b = \<lparr>name = \<lparr>name_value = n\<rparr>, phones = [], birthday = Some b\<rparr>"

definition alice :: record_obj where
  "alice = with_birthday ''Alice''
     \<lparr>date = Some \<lparr>year = 1991, month = 8, day = 24\<rparr>, birthday_value = Some ''24.08.1991''\<rparr>"

definition carl :: record_obj where
  "carl = with_birthday ''Carl''
     \<lparr>date = Some \<lparr>year = 1990, month = 1, day = 1\<rparr>, birthday_value = Some ''01.01.1990''\<rparr>"

definition dan :: record_obj where
  "dan = with_birthday ''Dan''
     \<lparr>date = Some \<lparr>year = 1991, month = 8, day = 20\<rparr>, birthday_value = Some ''20.08.1991''\<rparr>"

definition leap :: record_obj where
  "leap = with_birthday ''Leap''
     \<lparr>date = Some \<lparr>year = 2000, month = 2, day = 29\<rparr>, birthday_value = Some ''29.02.2000''\<rparr>"

definition broken :: record_obj where
  "broken = with_birthday ''Broken'' \<lparr>date = None, birthday_value = None\<rparr>"

definition new_record :: "string \<Rightarrow> record_obj" where
  \<comment> \<open>what \<open>Record\<close> returns for a name that is not empty\<close>
  "new_record n = \<lparr>name = \<lparr>name_value = n\<rparr>, phones = [], birthday = None\<rparr>"

section \<open>Evaluation rules\<close>

lemma days_later_numeral:
  "days_later (numeral k) dt = next_day (days_later (pred_numeral k) dt)"
  by (simp add: numeral_eq_Suc)

lemmas parse_defs =
  strptime_date_def format_regex_match_def match_d_def match_m_def match_Y_def match_dot_def
  two_chars_def one_char_def space_char_def in_range_def ascii_digit_def digit_val_def
  new_date_def check_date_fields_def days_in_month_def is_leap_def

lemmas query_defs =
  get_upcoming_birthdays_def add_days_def days_later_numeral next_day_def days_in_month_def
  is_leap_def dict_values_def replace_year_def combine_min_time_def check_date_fields_def
  dt_le_def dt_lt_def dt_key_def

lemmas example_defs =
  noon_2024_08_20_def noon_2023_03_01_def with_birthday_def alice_def carl_def dan_def
  leap_def broken_def new_record_def

lemma parse_24_08_1991:
  "strptime_date ''24.08.1991'' = Inr \<lparr>year = 1991, month = 8, day = 24\<rparr>"
  by (simp add: parse_defs)

lemma parse_01_01_1990:
  "strptime_date ''01.01.1990'' = Inr \<lparr>year = 1990, month = 1, day = 1\<rparr>"
  by (simp add: parse_defs)

lemma parse_20_08_1991:
  "strptime_date ''20.08.1991'' = Inr \<lparr>year = 1991, month = 8, day = 20\<rparr>"
  by (simp add: parse_defs)

lemma parse_29_02_2000:
  "strptime_date ''29.02.2000'' = Inr \<lparr>year = 2000, month = 2, day = 29\<rparr>"
  by (simp add: parse_defs)

lemma parse_31_02_2000:
  "strptime_date ''31.02.2000'' = Inl (ValueError ''day is out of range for month'')"
  by (simp add: parse_defs)

lemma parse_iso_text:
  "strptime_date ''1991-08-24'' = Inl (ValueError ''time data does not match format'')"
  by (simp add: parse_defs)

lemma week_after_noon_2024_08_20:
  "add_days noon_2024_08_20 7 = Inr (noon_2024_08_20\<lparr>day := 27\<rparr>)"
  by (simp add: query_defs example_defs)

lemma week_after_noon_2023_03_01:
  "add_days noon_2023_03_01 7 = Inr (noon_2023_03_01\<lparr>day := 8\<rparr>)"
  by (simp add: query_defs example_defs)

lemma valid_noon_2024_08_20: "valid_datetime noon_2024_08_20"
  by (simp add: valid_datetime_def query_defs example_defs)

lemma valid_noon_2023_03_01: "valid_datetime noon_2023_03_01"
  by (simp add: valid_datetime_def query_defs example_defs)

lemma run_example:
  "run [AddRecord alice, AddRecord carl, Delete ''Carl'', Find ''Alice'',
        GetUpcomingBirthdays noon_2024_08_20, AddRecord dan]
     = [(''Alice'', alice), (''Dan'', dan)]"
  by (simp add: run_def add_record_def delete_def dict_contains_def alice_def carl_def dan_def
        with_birthday_def)

lemma add_birthday_examples:
  "add_birthday ''24.08.1991'' (new_record ''Alice'') = Inr alice"
  "add_birthday ''29.02.2000'' (new_record ''Leap'') = Inr leap"
  "add_birthday ''1991-08-24'' (new_record ''Broken'') = Inr broken"
  "add_birthday ''20.08.1991'' (new_record ''Dan'') = Inr dan"
  by (simp_all add: add_birthday_def Birthday_def example_defs parse_24_08_1991 parse_29_02_2000
        parse_iso_text parse_20_08_1991)

lemma steps_over_examples:
  "steps_over 2024 alice" "steps_over 2024 carl" "steps_over 2024 dan"
  by (simp_all add: steps_over_def parsed_birthday_def day_exists_def Birthday_def example_defs
        parse_24_08_1991 parse_01_01_1990 parse_20_08_1991 days_in_month_def)

lemma in_window_examples:
  "in_window noon_2024_08_20 (noon_2024_08_20\<lparr>day := 27\<rparr>) alice"
  "\<not> in_window noon_2024_08_20 (noon_2024_08_20\<lparr>day := 27\<rparr>) carl"
  "\<not> in_window noon_2024_08_20 (noon_2024_08_20\<lparr>day := 27\<rparr>) dan"
  by (simp_all add: in_window_def candidate_def dt_le_def dt_key_def example_defs)

section \<open>Phone numbers\<close>

lemma char_isdigit_iff: "char_isdigit c \<longleftrightarrow> ascii_digit c \<or> superscript_digit c"
  by (auto simp: ascii_digit_def char_isdigit_def superscript_digit_def)

lemma Phone_eq:
  "Phone new s =
     (if length s = 10 \<and> isdigit s then Inr \<lparr>ident = new, phone_value = s\<rparr>
      else Inl (ValueError ''Invalid phone number''))"
  by (simp add: Phone_def phone_value_setter_def)

lemma isdigit_len10:
  "length s = 10 \<Longrightarrow> isdigit s = (\<forall>c\<in>set s. ascii_digit c \<or> superscript_digit c)"
  by (auto simp: isdigit_def list_all_iff char_isdigit_iff)

text \<open>
  C6 (as amended). \<open>Phone s\<close> succeeds exactly when \<open>s\<close> has 10 characters and each of them is
  a digit in the sense of \<^verbatim>\<open>str.isdigit\<close>: an ASCII digit or one of the superscript digits
  U+00B2, U+00B3, U+00B9. On success the stored value is \<open>s\<close> unchanged; every other text
  raises ValueError, Invalid phone number.
\<close>

theorem Phone_succeeds_iff:
  "Phone new s =
     (if length s = 10 \<and> (\<forall>c\<in>set s. ascii_digit c \<or> superscript_digit c)
      then Inr \<lparr>ident = new, phone_value = s\<rparr>
      else Inl (ValueError ''Invalid phone number''))"
  using isdigit_len10 [of s] by (auto simp: Phone_eq)

theorem Phone_succeeds_iff_witness:
  "length ''1234567890'' = 10
   \<and> list_all ascii_digit ''1234567890''
   \<and> Phone 0 ''1234567890'' = Inr \<lparr>ident = 0, phone_value = ''1234567890''\<rparr>
   \<and> Phone 0 ''12345'' = Inl (ValueError ''Invalid phone number'')"
  using Phone_succeeds_iff [of 0 "''1234567890''"] Phone_succeeds_iff [of 0 "''12345''"]
  by (simp add: ascii_digit_def)

text \<open>
  C6 as stated fails: the text of ten superscript twos (U+00B2) has no ASCII digit, and the
  constructor accepts it.
\<close>

theorem Phone_superscript_counterexample:
  "Phone 0 [CHR 0xB2, CHR 0xB2, CHR 0xB2, CHR 0xB2, CHR 0xB2,
            CHR 0xB2, CHR 0xB2, CHR 0xB2, CHR 0xB2, CHR 0xB2]
     = Inr \<lparr>ident = 0,
            phone_value = [CHR 0xB2, CHR 0xB2, CHR 0xB2, CHR 0xB2, CHR 0xB2,
                           CHR 0xB2, CHR 0xB2, CHR 0xB2, CHR 0xB2, CHR 0xB2]\<rparr>
   \<and> \<not> ascii_digit (CHR 0xB2)"
  by (simp add: Phone_eq isdigit_def char_isdigit_def ascii_digit_def)

section \<open>Deleting and editing phones\<close>

lemma list_remove_absent:
  "ident x \<notin> ident ` set ys \<Longrightarrow>
     list_remove x ys = Inl (ValueError ''list.remove(x): x not in list'')"
  by (induction ys) (auto simp: phone_eq_def)

lemma delete_phone_never_succeeds:
  "new \<notin> ident ` set (phones r) \<Longrightarrow> \<exists>e. delete_phone new phone r = Inl e"
  by (auto simp: delete_phone_def Phone_eq list_remove_absent)

text \<open>
  C1 (the code fails it). A record whose only phone was added as \<open>1234567890\<close>:
  \<open>delete_phone\<close> with the same text builds a new Phone object, which is equal to no
  stored one, so \<^verbatim>\<open>list.remove\<close> raises ValueError and the phone stays.
\<close>

theorem delete_phone_stored_phone_raises:
  "add_phone 0 ''1234567890'' (new_record ''Alice'')
     = Inr \<lparr>name = \<lparr>name_value = ''Alice''\<rparr>,
            phones = [\<lparr>ident = 0, phone_value = ''1234567890''\<rparr>], birthday = None\<rparr>
   \<and> delete_phone 1 ''1234567890''
        \<lparr>name = \<lparr>name_value = ''Alice''\<rparr>,
         phones = [\<lparr>ident = 0, phone_value = ''1234567890''\<rparr>], birthday = None\<rparr>
     = Inl (ValueError ''list.remove(x): x not in list'')"
  by (simp add: add_phone_def delete_phone_def Phone_eq isdigit_def char_isdigit_def
        phone_eq_def new_record_def)

lemma edit_phone_loop_absent:
  "old \<notin> phone_value ` set ps \<Longrightarrow> set is \<subseteq> {..< length ps}
    \<Longrightarrow> edit_phone_loop new old new_phone is ps = Inr ps"
  by (cases "is") auto

text \<open>
  C4 (as amended). If no phone of the record has the value \<open>old\<close>, \<open>edit_phone\<close> raises
  nothing and leaves the record as it is.
\<close>

theorem edit_phone_absent_unchanged:
  "old \<notin> phone_value ` set (phones r) \<Longrightarrow> edit_phone new old new_phone r = Inr r"
proof -
  assume absent: "old \<notin> phone_value ` set (phones r)"
  have "set [0 ..< length (phones r)] \<subseteq> {..< length (phones r)}" by auto
  with absent
  have "edit_phone_loop new old new_phone [0 ..< length (phones r)] (phones r) = Inr (phones r)"
    by (rule edit_phone_loop_absent)
  then show ?thesis by (simp add: edit_phone_def)
qed

theorem edit_phone_absent_unchanged_witness:
  "''5555555555'' \<notin> phone_value ` set (phones
      \<lparr>name = \<lparr>name_value = ''Alice''\<rparr>,
       phones = [\<lparr>ident = 0, phone_value = ''1234567890''\<rparr>,
                 \<lparr>ident = 1, phone_value = ''1112223334''\<rparr>],
       birthday = None\<rparr>)
   \<and> edit_phone 2 ''5555555555'' ''0987654321''
        \<lparr>name = \<lparr>name_value = ''Alice''\<rparr>,
         phones = [\<lparr>ident = 0, phone_value = ''1234567890''\<rparr>,
                   \<lparr>ident = 1, phone_value = ''1112223334''\<rparr>],
         birthday = None\<rparr>
     = Inr \<lparr>name = \<lparr>name_value = ''Alice''\<rparr>,
         phones = [\<lparr>ident = 0, phone_value = ''1234567890''\<rparr>,
                   \<lparr>ident = 1, phone_value = ''1112223334''\<rparr>],
         birthday = None\<rparr>"
  using edit_phone_absent_unchanged [of "''5555555555''"
      "\<lparr>name = \<lparr>name_value = ''Alice''\<rparr>,
       phones = [\<lparr>ident = 0, phone_value = ''1234567890''\<rparr>,
                 \<lparr>ident = 1, phone_value = ''1112223334''\<rparr>],
       birthday = None\<rparr>" 2 "''0987654321''"]
  by simp

text \<open>
  C4 as stated fails: \<open>5555555555\<close> is not a phone of the record, and \<open>edit_phone\<close>
  returns the record, with no error.
\<close>

theorem edit_phone_absent_counterexample:
  "''5555555555'' \<notin> phone_value ` set [\<lparr>ident = 0, phone_value = ''1234567890''\<rparr>]
   \<and> edit_phone 1 ''5555555555'' ''0987654321''
        \<lparr>name = \<lparr>name_value = ''Bob''\<rparr>,
         phones = [\<lparr>ident = 0, phone_value = ''1234567890''\<rparr>], birthday = None\<rparr>
     = Inr \<lparr>name = \<lparr>name_value = ''Bob''\<rparr>,
         phones = [\<lparr>ident = 0, phone_value = ''1234567890''\<rparr>], birthday = None\<rparr>"
  by (simp add: edit_phone_def)

text \<open>
  C7. If the first phone of the record has the value \<open>old\<close> and \<open>new_phone\<close> is ten ASCII
  digits, \<open>edit_phone\<close> puts a new Phone with the value \<open>new_phone\<close> in the first place
  and leaves the phones after it as they are.
\<close>

theorem edit_phone_first:
  assumes "phones r = p # ps" and "phone_value p = old"
    and "length new_phone = 10" and "\<forall>c\<in>set new_phone. ascii_digit c"
  shows "edit_phone new old new_phone r
           = Inr (r\<lparr>phones := \<lparr>ident = new, phone_value = new_phone\<rparr> # ps\<rparr>)"
proof -
  have "Phone new new_phone = Inr \<lparr>ident = new, phone_value = new_phone\<rparr>"
    using assms(3,4) isdigit_len10 [of new_phone] by (simp add: Phone_eq)
  then show ?thesis
    using assms(1,2) by (simp add: edit_phone_def upt_conv_Cons del: upt_Suc)
qed

theorem edit_phone_first_witness:
  "phones \<lparr>name = \<lparr>name_value = ''Alice''\<rparr>,
       phones = [\<lparr>ident = 0, phone_value = ''1234567890''\<rparr>], birthday = None\<rparr>
     = [\<lparr>ident = 0, phone_value = ''1234567890''\<rparr>]
   \<and> length ''0987654321'' = 10 \<and> list_all ascii_digit ''0987654321''
   \<and> edit_phone 1 ''1234567890'' ''0987654321''
        \<lparr>name = \<lparr>name_value = ''Alice''\<rparr>,
         phones = [\<lparr>ident = 0, phone_value = ''1234567890''\<rparr>], birthday = None\<rparr>
     = Inr \<lparr>name = \<lparr>name_value = ''Alice''\<rparr>,
         phones = [\<lparr>ident = 1, phone_value = ''0987654321''\<rparr>], birthday = None\<rparr>"
  using edit_phone_first [of
      "\<lparr>name = \<lparr>name_value = ''Alice''\<rparr>,
       phones = [\<lparr>ident = 0, phone_value = ''1234567890''\<rparr>], birthday = None\<rparr>"
      "\<lparr>ident = 0, phone_value = ''1234567890''\<rparr>" "[]" "''1234567890''" "''0987654321''" 1]
  by (simp add: ascii_digit_def)

section \<open>Birthdays\<close>

lemma check_date_fields_ValueError:
  "check_date_fields y m d = Inl e \<Longrightarrow> \<exists>msg. e = ValueError msg"
  by (auto simp: check_date_fields_def split: if_splits)

lemma strptime_date_ValueError: "strptime_date s = Inl e \<Longrightarrow> \<exists>msg. e = ValueError msg"
  by (auto simp: strptime_date_def new_date_def
           split: list.splits if_splits sum.splits prod.splits
           dest: check_date_fields_ValueError)

lemma Birthday_of_unparsable:
  "strptime_date s = Inl e \<Longrightarrow> Birthday s = Inr \<lparr>date = None, birthday_value = None\<rparr>"
  by (auto simp: Birthday_def dest!: strptime_date_ValueError)

lemma Birthday_total: "\<exists>b. Birthday s = Inr b"
  by (cases "strptime_date s") (auto simp: Birthday_def dest!: strptime_date_ValueError)

text \<open>
  C2 (as amended). For a text that does not parse, \<open>Birthday\<close> raises nothing: the
  ValueError of the parser is swallowed, and the object comes back with neither its date
  nor its value set.
\<close>

theorem Birthday_unparsable_no_error:
  "strptime_date s = Inl e \<Longrightarrow> Birthday s = Inr \<lparr>date = None, birthday_value = None\<rparr>"
  by (auto simp: Birthday_def dest!: strptime_date_ValueError)

theorem Birthday_unparsable_no_error_witness:
  "strptime_date ''31.02.2000'' = Inl (ValueError ''day is out of range for month'')
   \<and> Birthday ''31.02.2000'' = Inr \<lparr>date = None, birthday_value = None\<rparr>"
  using parse_31_02_2000 Birthday_unparsable_no_error [OF parse_31_02_2000] by simp

text \<open>
  C2 as stated fails: \<open>1991-08-24\<close> does not parse, and the constructor returns an
  object instead of an error.
\<close>

theorem Birthday_unparsable_counterexample:
  "strptime_date ''1991-08-24'' = Inl (ValueError ''time data does not match format'')
   \<and> Birthday ''1991-08-24'' = Inr \<lparr>date = None, birthday_value = None\<rparr>"
  by (simp add: parse_iso_text Birthday_def)

text \<open>
  C10. For a text \<open>s\<close> that parses, \<open>Birthday s\<close> keeps the parsed date and the text, and
  formatting the object gives \<open>s\<close> back.
\<close>

theorem Birthday_str_roundtrip:
  "strptime_date s = Inr d \<Longrightarrow>
     Birthday s = Inr \<lparr>date = Some d, birthday_value = Some s\<rparr>
     \<and> birthday_str \<lparr>date = Some d, birthday_value = Some s\<rparr> = Inr s"
  by (simp add: Birthday_def birthday_str_def)

theorem Birthday_str_roundtrip_witness:
  "strptime_date ''24.08.1991'' = Inr \<lparr>year = 1991, month = 8, day = 24\<rparr>
   \<and> Birthday ''24.08.1991''
       = Inr \<lparr>date = Some \<lparr>year = 1991, month = 8, day = 24\<rparr>,
              birthday_value = Some ''24.08.1991''\<rparr>
   \<and> birthday_str \<lparr>date = Some \<lparr>year = 1991, month = 8, day = 24\<rparr>,
                    birthday_value = Some ''24.08.1991''\<rparr>
       = Inr ''24.08.1991''"
  using parse_24_08_1991 Birthday_str_roundtrip [OF parse_24_08_1991] by simp

section \<open>The book's keys\<close>

lemma set_dict_setitem: "set (dict_setitem k v d) \<subseteq> insert (k, v) (set d)"
  by (induction d) (auto split: if_splits)

lemma set_dict_delitem: "set (dict_delitem k d) \<subseteq> set d"
  by (induction d) (auto split: if_splits)

lemma apply_op_keys:
  assumes "\<forall>(k, r)\<in>set book. name_value (name r) = k"
  shows "\<forall>(k, r)\<in>set (apply_op book operation). name_value (name r) = k"
proof (cases operation)
  case (AddRecord r)
  then show ?thesis
    using assms set_dict_setitem [of "name_value (name r)" r book]
    by (auto simp: add_record_def)
next
  case (Delete n)
  then show ?thesis
    using assms set_dict_delitem [of n book] by (auto simp: delete_def)
next
  case (Find n)
  then show ?thesis using assms by simp
next
  case (GetUpcomingBirthdays today)
  then show ?thesis using assms by simp
qed

lemma foldl_apply_op_keys:
  "\<forall>(k, r)\<in>set book. name_value (name r) = k \<Longrightarrow>
   \<forall>(k, r)\<in>set (foldl apply_op book ops). name_value (name r) = k"
proof (induction ops arbitrary: book)
  case Nil
  then show ?case by simp
next
  case (Cons operation ops)
  from Cons.prems have "\<forall>(k, r)\<in>set (apply_op book operation). name_value (name r) = k"
    by (rule apply_op_keys)
  then show ?case using Cons.IH by simp
qed

lemma map_of_dict_setitem: "map_of (dict_setitem k v d) k = Some v"
  by (induction d) auto

lemma dict_contains_setitem: "dict_contains k (dict_setitem k v d)"
  by (induction d) (force simp: dict_contains_def)+

lemma find_add_record: "find (name_value (name r)) (add_record r book) = Some r"
  by (simp add: find_def add_record_def dict_contains_setitem map_of_dict_setitem)

text \<open>
  C8. In every book reached from the empty book by \<open>add_record\<close>, \<open>delete\<close>, \<open>find\<close> and
  \<open>get_upcoming_birthdays\<close>, each record is stored under the value of its own name.
\<close>

theorem reachable_book_keys:
  "(k, r) \<in> set (run ops) \<Longrightarrow> name_value (name r) = k"
  using foldl_apply_op_keys [of "[]" ops] by (auto simp: run_def)

theorem reachable_book_keys_witness:
  "(''Dan'', dan) \<in> set (run [AddRecord alice, AddRecord carl, Delete ''Carl'', Find ''Alice'',
                               GetUpcomingBirthdays noon_2024_08_20, AddRecord dan])
   \<and> name_value (name dan) = ''Dan''"
  using reachable_book_keys [of "''Dan''" dan
      "[AddRecord alice, AddRecord carl, Delete ''Carl'', Find ''Alice'',
        GetUpcomingBirthdays noon_2024_08_20, AddRecord dan]"]
  by (simp add: run_example)

section \<open>The upcoming-birthdays query\<close>

lemma check_date_fields_unit:
  "check_date_fields y m d = Inr u \<longleftrightarrow>
     1 \<le> y \<and> y \<le> 9999 \<and> 1 \<le> m \<and> m \<le> 12 \<and> 1 \<le> d \<and> d \<le> days_in_month y m"
  by (auto simp: check_date_fields_def)

lemma strptime_date_fields:
  "strptime_date s = Inr d \<Longrightarrow> check_date_fields (year d) (month d) (day d) = Inr ()"
  by (auto simp: strptime_date_def new_date_def
           split: list.splits if_splits sum.splits prod.splits)

lemma replace_year_candidate:
  assumes "check_date_fields (year d) (month d) (day d) = Inr ()"
    and "1 \<le> year today" and "year today \<le> 9999"
    and "day d \<le> days_in_month (year today) (month d)"
  shows "replace_year (combine_min_time d) (year today) = Inr (candidate today d)"
proof -
  have "check_date_fields (year today) (month d) (day d) = Inr ()"
    using assms by (simp add: check_date_fields_unit)
  then show ?thesis by (simp add: replace_year_def combine_min_time_def candidate_def)
qed

lemma parsed_birthdayD:
  "parsed_birthday b \<Longrightarrow>
     \<exists>v d. b = \<lparr>date = Some d, birthday_value = Some v\<rparr> \<and> strptime_date v = Inr d"
  by (auto simp: parsed_birthday_def Birthday_def split: option.splits sum.splits error.splits)

lemma upcoming_loop_step:
  assumes "1 \<le> year today" and "year today \<le> 9999" and "steps_over (year today) r"
  shows "upcoming_loop today nw (r # rs) acc
           = upcoming_loop today nw rs (if in_window today nw r then acc @ [r] else acc)"
proof (cases "birthday r")
  case None
  then show ?thesis by (simp add: in_window_def)
next
  case (Some b)
  with assms(3) have pb: "parsed_birthday b" and de: "day_exists (year today) b"
    by (simp_all add: steps_over_def)
  from pb obtain v d where b: "b = \<lparr>date = Some d, birthday_value = Some v\<rparr>"
    and p: "strptime_date v = Inr d"
    using parsed_birthdayD by blast
  from de b have dd: "day d \<le> days_in_month (year today) (month d)"
    by (simp add: day_exists_def)
  have ry: "replace_year (combine_min_time d) (year today) = Inr (candidate today d)"
    using replace_year_candidate [OF strptime_date_fields [OF p] assms(1,2) dd] .
  have yc: "year (candidate today d) \<noteq> year today + 1" by (simp add: candidate_def)
  show ?thesis using Some b p ry yc by (simp add: in_window_def)
qed

lemma upcoming_loop_append:
  assumes "1 \<le> year today" and "year today \<le> 9999"
  shows "\<forall>r\<in>set pre. steps_over (year today) r \<Longrightarrow>
         upcoming_loop today nw (pre @ rest) acc
           = upcoming_loop today nw rest (acc @ filter (in_window today nw) pre)"
proof (induction pre arbitrary: acc)
  case Nil
  then show ?case by simp
next
  case (Cons r pre)
  then have r: "steps_over (year today) r"
    and pre: "\<forall>x\<in>set pre. steps_over (year today) x"
    by simp_all
  have "upcoming_loop today nw ((r # pre) @ rest) acc
          = upcoming_loop today nw (pre @ rest) (if in_window today nw r then acc @ [r] else acc)"
    using upcoming_loop_step [OF assms r, of nw "pre @ rest" acc] by simp
  then show ?case by (simp add: Cons.IH [OF pre])
qed

lemma valid_datetime_year: "valid_datetime dt \<Longrightarrow> 1 \<le> year dt \<and> year dt \<le> 9999"
  by (simp add: valid_datetime_def check_date_fields_unit)

text \<open>
  What the loop computes when it raises nothing. \<open>today\<close> is the date and time of the
  call. When \<open>today + 7 days\<close> exists and every birthday held in the book was parsed from
  its text and has a day that exists in the year of \<open>today\<close>, the query returns, in the
  book's order, the records that hold a birthday whose candidate (midnight of the
  birthday's day and month in the year of \<open>today\<close>) lies between \<open>today\<close> and
  \<open>today + 7 days\<close>, both compared as date and time.
\<close>

lemma get_upcoming_birthdays_window:
  assumes "valid_datetime today" and "add_days today 7 = Inr next_week"
    and "\<forall>r\<in>set (dict_values book). steps_over (year today) r"
  shows "get_upcoming_birthdays today book
           = Inr (filter (in_window today next_week) (dict_values book))"
proof -
  from assms(1) have y: "1 \<le> year today" "year today \<le> 9999"
    using valid_datetime_year by blast+
  show ?thesis
    using upcoming_loop_append [OF y assms(3), of next_week "[]" "[]"] assms(2)
    by (simp add: get_upcoming_birthdays_def)
qed

lemma get_upcoming_birthdays_window_example:
  "get_upcoming_birthdays noon_2024_08_20 [(''Alice'', alice), (''Carl'', carl)] = Inr [alice]"
proof -
  have s: "\<forall>r\<in>set (dict_values [(''Alice'', alice), (''Carl'', carl)]).
             steps_over (year noon_2024_08_20) r"
    using steps_over_examples by (simp add: dict_values_def noon_2024_08_20_def)
  from get_upcoming_birthdays_window [OF valid_noon_2024_08_20 week_after_noon_2024_08_20 s]
  show ?thesis by (simp add: dict_values_def in_window_examples)
qed

text \<open>
  C3 (the code fails it). The claim takes the window in days, inclusive at both ends. At
  noon of 2024-08-20 a record whose birthday is 20.08.1991 has its candidate day on the
  reference day, inside the days 2024-08-20 .. 2024-08-27, and the query does not return
  it: the candidate is midnight of that day, and the comparison \<^verbatim>\<open>today <= contact_birthday\<close>
  is made against the time of the call.
\<close>

theorem birthday_on_reference_day_dropped:
  "add_birthday ''20.08.1991'' (new_record ''Dan'') = Inr dan
   \<and> add_days noon_2024_08_20 7 = Inr (noon_2024_08_20\<lparr>day := 27\<rparr>)
   \<and> date_key noon_2024_08_20
       \<le> date_key (candidate noon_2024_08_20 \<lparr>year = 1991, month = 8, day = 20\<rparr>)
   \<and> date_key (candidate noon_2024_08_20 \<lparr>year = 1991, month = 8, day = 20\<rparr>)
       \<le> date_key (noon_2024_08_20\<lparr>day := 27\<rparr>)
   \<and> get_upcoming_birthdays noon_2024_08_20 [(''Dan'', dan)] = Inr []"
proof -
  have days: "date_key noon_2024_08_20
                \<le> date_key (candidate noon_2024_08_20 \<lparr>year = 1991, month = 8, day = 20\<rparr>)
              \<and> date_key (candidate noon_2024_08_20 \<lparr>year = 1991, month = 8, day = 20\<rparr>)
                \<le> date_key (noon_2024_08_20\<lparr>day := 27\<rparr>)"
    by (simp add: date_key_def candidate_def noon_2024_08_20_def)
  have dan: "get_upcoming_birthdays noon_2024_08_20 [(''Dan'', dan)] = Inr []"
    by (simp add: query_defs example_defs parse_20_08_1991)
  from add_birthday_examples(4) week_after_noon_2024_08_20 days dan
  show ?thesis by simp
qed

text \<open>
  The same record is returned when the call is made at midnight exactly, and no longer
  one microsecond later.
\<close>

lemma birthday_on_reference_day_at_midnight:
  "get_upcoming_birthdays
     \<lparr>year = 2024, month = 8, day = 20, hour = 0, minute = 0, second = 0, microsecond = 0\<rparr>
     [(''Dan'', dan)] = Inr [dan]"
  "get_upcoming_birthdays
     \<lparr>year = 2024, month = 8, day = 20, hour = 0, minute = 0, second = 0, microsecond = 1\<rparr>
     [(''Dan'', dan)] = Inr []"
  by (simp_all add: query_defs example_defs parse_20_08_1991)

text \<open>
  C5 (the code fails it). A record whose birthday is 29.02.2000, queried at noon of
  2023-03-01: replacing the year by 2023 raises ValueError, day is out of range for month,
  and the query returns no list.
\<close>

theorem leap_day_birthday_raises:
  "add_birthday ''29.02.2000'' (new_record ''Leap'') = Inr leap
   \<and> days_in_month (year noon_2023_03_01) 2 = 28
   \<and> get_upcoming_birthdays noon_2023_03_01 [(''Leap'', leap)]
       = Inl (ValueError ''day is out of range for month'')"
proof -
  have year: "days_in_month (year noon_2023_03_01) 2 = 28"
    by (simp add: days_in_month_def is_leap_def noon_2023_03_01_def)
  have query: "get_upcoming_birthdays noon_2023_03_01 [(''Leap'', leap)]
                 = Inl (ValueError ''day is out of range for month'')"
    by (simp add: query_defs example_defs parse_29_02_2000)
  from add_birthday_examples(2) year query show ?thesis by simp
qed

lemma upcoming_loop_unparsed_head:
  "birthday r = Some b \<Longrightarrow> date b = None \<Longrightarrow>
     upcoming_loop today nw (r # rest) acc = Inl (AttributeError ''date'')"
  by simp

lemma upcoming_loop_step_cases:
  "(\<exists>e. upcoming_loop today nw (x # rs) acc = Inl e)
   \<or> (\<exists>acc'. upcoming_loop today nw (x # rs) acc = upcoming_loop today nw rs acc')"
  by (auto split: option.splits sum.splits)

lemma upcoming_loop_raises:
  "r \<in> set rs \<Longrightarrow> birthday r = Some b \<Longrightarrow> date b = None \<Longrightarrow>
     \<exists>e. upcoming_loop today nw rs acc = Inl e"
proof (induction rs arbitrary: acc)
  case Nil
  then show ?case by simp
next
  case (Cons x rs)
  show ?case
  proof (cases "x = r")
    case True
    with Cons.prems show ?thesis by (simp add: upcoming_loop_unparsed_head)
  next
    case False
    with Cons.prems have "r \<in> set rs" by simp
    then have later: "\<And>acc'. \<exists>e. upcoming_loop today nw rs acc' = Inl e"
      using Cons.IH Cons.prems(2,3) by blast
    from upcoming_loop_step_cases [of today nw x rs acc] show ?thesis
    proof
      assume "\<exists>e. upcoming_loop today nw (x # rs) acc = Inl e"
      then show ?thesis .
    next
      assume "\<exists>acc'. upcoming_loop today nw (x # rs) acc = upcoming_loop today nw rs acc'"
      then obtain acc' where "upcoming_loop today nw (x # rs) acc = upcoming_loop today nw rs acc'"
        by blast
      with later [of acc'] show ?thesis by simp
    qed
  qed
qed

text \<open>
  C9 (as amended). If a record of the book holds a Birthday built from a text that does
  not parse, the query returns no list: it raises. The exception is the AttributeError
  of reading \<open>date\<close> whenever the loop reaches that record, that is when
  \<open>today + 7 days\<close> exists and every record before it in the book's order has no
  birthday or a parsed one whose day exists in the year of \<open>today\<close>.
\<close>

theorem unparsed_birthday_query_raises:
  assumes "strptime_date s = Inl e0" and "Birthday s = Inr b" and "birthday r = Some b"
  shows "(\<exists>e. get_upcoming_birthdays today (pre @ (k, r) # post) = Inl e)
         \<and> (valid_datetime today \<and> (\<exists>nw. add_days today 7 = Inr nw)
              \<and> (\<forall>x\<in>set (dict_values pre). steps_over (year today) x)
            \<longrightarrow> get_upcoming_birthdays today (pre @ (k, r) # post)
                  = Inl (AttributeError ''date''))"
proof -
  from assms(1,2) have nodate: "date b = None"
    using Birthday_of_unparsable [of s e0] by auto
  have raises: "\<exists>e. get_upcoming_birthdays today (pre @ (k, r) # post) = Inl e"
  proof (cases "add_days today 7")
    case (Inl e)
    then show ?thesis by (simp add: get_upcoming_birthdays_def)
  next
    case (Inr nw)
    have "r \<in> set (dict_values (pre @ (k, r) # post))" by (simp add: dict_values_def)
    from upcoming_loop_raises [OF this assms(3) nodate, of today nw "[]"] Inr
    show ?thesis by (simp add: get_upcoming_birthdays_def)
  qed
  have reached: "get_upcoming_birthdays today (pre @ (k, r) # post) = Inl (AttributeError ''date'')"
    if v: "valid_datetime today" and w: "add_days today 7 = Inr nw"
      and p: "\<forall>x\<in>set (dict_values pre). steps_over (year today) x" for nw
  proof -
    from v have y: "1 \<le> year today" "year today \<le> 9999"
      using valid_datetime_year by blast+
    have "upcoming_loop today nw (dict_values pre @ r # dict_values post) []
            = upcoming_loop today nw (r # dict_values post)
                ([] @ filter (in_window today nw) (dict_values pre))"
      using upcoming_loop_append [OF y p] .
    also have "\<dots> = Inl (AttributeError ''date'')"
      using assms(3) nodate by (rule upcoming_loop_unparsed_head)
    finally show ?thesis using w by (simp add: get_upcoming_birthdays_def dict_values_def)
  qed
  from raises reached show ?thesis by blast
qed

theorem unparsed_birthday_query_raises_witness:
  "strptime_date ''1991-08-24'' = Inl (ValueError ''time data does not match format'')
   \<and> Birthday ''1991-08-24'' = Inr \<lparr>date = None, birthday_value = None\<rparr>
   \<and> birthday broken = Some \<lparr>date = None, birthday_value = None\<rparr>
   \<and> valid_datetime noon_2024_08_20
   \<and> add_days noon_2024_08_20 7 = Inr (noon_2024_08_20\<lparr>day := 27\<rparr>)
   \<and> steps_over (year noon_2024_08_20) alice
   \<and> get_upcoming_birthdays noon_2024_08_20
        ([(''Alice'', alice)] @ (''Broken'', broken) # [(''Carl'', carl)])
       = Inl (AttributeError ''date'')"
proof -
  have b: "Birthday ''1991-08-24'' = Inr \<lparr>date = None, birthday_value = None\<rparr>"
    using parse_iso_text by (rule Birthday_of_unparsable)
  have r: "birthday broken = Some \<lparr>date = None, birthday_value = None\<rparr>"
    by (simp add: broken_def with_birthday_def)
  have s: "\<forall>x\<in>set (dict_values [(''Alice'', alice)]). steps_over (year noon_2024_08_20) x"
    using steps_over_examples by (simp add: dict_values_def noon_2024_08_20_def)
  from unparsed_birthday_query_raises [OF parse_iso_text b r, of noon_2024_08_20
      "[(''Alice'', alice)]" "''Broken''" "[(''Carl'', carl)]"]
    valid_noon_2024_08_20 week_after_noon_2024_08_20 s
  have "get_upcoming_birthdays noon_2024_08_20
          ([(''Alice'', alice)] @ (''Broken'', broken) # [(''Carl'', carl)])
        = Inl (AttributeError ''date'')"
    by blast
  with parse_iso_text b r valid_noon_2024_08_20 week_after_noon_2024_08_20 s
  show ?thesis by (simp add: dict_values_def)
qed

text \<open>
  C9 as stated fails: with a birthday of 29.02.2000 earlier in the book and the year 2023,
  the query raises ValueError before it reaches the record whose Birthday did not parse;
  the exception is not an AttributeError.
\<close>

theorem unparsed_after_leap_day_counterexample:
  "add_birthday ''1991-08-24'' (new_record ''Broken'') = Inr broken
   \<and> strptime_date ''1991-08-24'' = Inl (ValueError ''time data does not match format'')
   \<and> get_upcoming_birthdays noon_2023_03_01 [(''Leap'', leap), (''Broken'', broken)]
       = Inl (ValueError ''day is out of range for month'')"
proof -
  have query: "get_upcoming_birthdays noon_2023_03_01 [(''Leap'', leap), (''Broken'', broken)]
                 = Inl (ValueError ''day is out of range for month'')"
    by (simp add: query_defs example_defs parse_29_02_2000)
  from add_birthday_examples(3) parse_iso_text query show ?thesis by simp
qed

section \<open>The window's end exists before the year 9999\<close>

lemma next_day_year:
  "year (next_day dt) = year dt \<or>
   (year (next_day dt) = year dt + 1 \<and> month (next_day dt) = 1 \<and> day (next_day dt) = 1)"
  by (simp add: next_day_def)

lemma next_day_january:
  "month dt = 1 \<Longrightarrow> day dt \<le> 27 \<Longrightarrow>
     year (next_day dt) = year dt \<and> month (next_day dt) = 1 \<and> day (next_day dt) = day dt + 1"
  by (simp add: next_day_def days_in_month_def)

lemma days_later_year:
  "n \<le> 27 \<Longrightarrow>
     year (days_later n dt) = year dt \<or>
     (year (days_later n dt) = year dt + 1 \<and> month (days_later n dt) = 1
        \<and> day (days_later n dt) \<le> n)"
proof (induction n)
  case 0
  then show ?case by simp
next
  case (Suc n)
  let ?d = "days_later n dt"
  from Suc have "year ?d = year dt \<or> (year ?d = year dt + 1 \<and> month ?d = 1 \<and> day ?d \<le> n)"
    by simp
  then show ?case
  proof
    assume "year ?d = year dt"
    with next_day_year [of ?d] show ?thesis by auto
  next
    assume a: "year ?d = year dt + 1 \<and> month ?d = 1 \<and> day ?d \<le> n"
    with Suc.prems have "day ?d \<le> 27" by simp
    with a next_day_january [of ?d] show ?thesis by auto
  qed
qed

lemma add_days_week_returns:
  "year today < 9999 \<Longrightarrow> \<exists>next_week. add_days today 7 = Inr next_week"
  using days_later_year [of 7 today] by (auto simp: add_days_def Let_def)

lemma Record_new_record: "n \<noteq> [] \<Longrightarrow> Record n = Inr (new_record n)"
  by (simp add: Record_def Name_def new_record_def)

lemma alice_upcoming_on_2024_08_20:
  assumes "valid_datetime today" and "year today = 2024" and "month today = 8" and "day today = 20"
  shows "get_upcoming_birthdays today [(''Alice'', alice)] = Inr [alice]"
proof -
  have w: "add_days today 7 = Inr (today\<lparr>day := 27\<rparr>)"
    using assms(2-4) by (simp add: add_days_def days_later_numeral next_day_def days_in_month_def)
  have s: "\<forall>r\<in>set (dict_values [(''Alice'', alice)]). steps_over (year today) r"
    using steps_over_examples(1) assms(2) by (simp add: dict_values_def)
  have i: "in_window today (today\<lparr>day := 27\<rparr>) alice"
    using assms(2-4)
    by (simp add: in_window_def candidate_def dt_le_def dt_key_def alice_def with_birthday_def)
  have y: "1 \<le> year today" "year today \<le> 9999" using assms(2) by simp_all
  show ?thesis
    using upcoming_loop_append [OF y s, of "today\<lparr>day := 27\<rparr>" "[]" "[]"] w i
    by (simp add: get_upcoming_birthdays_def dict_values_def)
qed

end
